theory Spec2Isabelle
  imports Main
begin

section \<open>El-Galeri API: the route handlers as state transformers\<close>

text \<open>
  The repository is an Express application over Mongoose models. Each route handler is
  embedded as a function from the request, the document store and the outcome of the
  storage layer to the calls made on the response object and the store afterwards.

  \<^item> A collection is an association list from document ids to documents, in insertion
    order; the store is a record of the four collections and of the id generator.
  \<^item> A Mongoose call settles as a promise: it is \<open>Rejected\<close> or \<open>Resolved\<close> with a value.
    Whether a call is rejected is decided outside the handler, so every storage call takes
    the condition of the storage layer for that call (\<open>Succeeds\<close> or \<open>Fails\<close>) as an argument.
  \<^item> The response object is a record of the current status code and of the log of bodies
    sent so far, each with the status code it was sent under. Express delivers the first
    entry of the log; a later entry is a send on a response that is already finished.
  \<^item> The store returned by a handler is the store once the storage calls that the handler
    awaits have settled. \<open>Promise.all\<close> does not cancel anything, so the saves started by
    \<open>POST /orders\<close> all settle, also when one of them is rejected. The removals of order
    items started by \<open>DELETE /orders/:id\<close> are not awaited: that handler returns the store
    at the moment it answers, together with the ids whose removal is still in flight.
  \<^item> A JavaScript number is a value of a type parameter \<open>'n\<close>; the handlers use its \<open>*\<close>,
    \<open>+\<close> and \<open>0\<close> and nothing else about it, so whatever they are proved to compute holds
    for the arithmetic of IEEE doubles as for any other.
\<close>

subsection \<open>Promises, awaited values and the response object\<close>

type_synonym oid = nat

type_synonym 'd doc = "oid \<times> 'd"

type_synonym 'd collection = "'d doc list"

datatype storage = Succeeds | Fails

datatype 'a promise = Rejected | Resolved 'a

text \<open>
  What \<open>await q.catch((err) => { return res.status(c).json(e) })\<close> evaluates to: the value
  of the query, \<open>null\<close>, or (after a rejection) the response object that \<open>json\<close> returns.
\<close>

datatype 'a awaited = Null | ResObject | Val 'a

datatype 'd body =
    Envelope bool string string
  | Doc "'d doc"
  | Docs "'d doc list"
  | NullBody
  | ResBody

record 'd res =
  statusCode :: nat
  sent :: "(nat \<times> 'd body) list"

definition res0 :: "'d res" where
  "res0 = \<lparr>statusCode = 200, sent = []\<rparr>"

definition status :: "nat \<Rightarrow> 'd res \<Rightarrow> 'd res" where
  "status c r = r\<lparr>statusCode := c\<rparr>"

definition json :: "'d body \<Rightarrow> 'd res \<Rightarrow> 'd res" where
  "json b r = r\<lparr>sent := sent r @ [(statusCode r, b)]\<rparr>"

definition send :: "'d body \<Rightarrow> 'd res \<Rightarrow> 'd res" where
  "send b r = json b r"

text \<open>JavaScript truthiness of an awaited value: only \<open>null\<close> is falsy (an empty array is truthy).\<close>

fun falsy :: "'a awaited \<Rightarrow> bool" where
  "falsy Null = True"
| "falsy ResObject = False"
| "falsy (Val v) = False"

fun of_option :: "'a option \<Rightarrow> 'a awaited" where
  "of_option None = Null"
| "of_option (Some v) = Val v"

fun doc_body :: "'d doc awaited \<Rightarrow> 'd body" where
  "doc_body Null = NullBody"
| "doc_body ResObject = ResBody"
| "doc_body (Val d) = Doc d"

fun docs_body :: "'d doc list awaited \<Rightarrow> 'd body" where
  "docs_body Null = NullBody"
| "docs_body ResObject = ResBody"
| "docs_body (Val ds) = Docs ds"

text \<open>The response the client receives: the first body sent, if any.\<close>

definition delivered :: "'d res \<Rightarrow> (nat \<times> 'd body) option" where
  "delivered r = (case sent r of [] \<Rightarrow> None | x # _ \<Rightarrow> Some x)"

subsection \<open>The data model\<close>

text \<open>
  Modelled from the spec: the Mongoose schemas (\<open>models/User\<close>, \<open>models/Product\<close>,
  \<open>models/OrderItem\<close>, \<open>models/Order\<close>) are not among the sources. The records below hold
  the fields the spec lists for each entity. A field that a handler fills from a request
  property that may be absent is an option (\<open>None\<close> is \<open>undefined\<close>); prices, stocks,
  quantities and totals are JavaScript numbers, of type \<open>'n\<close>; dates are read from the clock.
\<close>

record user =
  u_name :: "string option"
  u_email :: "string option"
  u_password :: string
  u_isAdmin :: "bool option"

record 'n product =
  p_name :: "string option"
  p_description :: "string option"
  p_detailDescription :: "string option"
  p_image :: string
  p_images :: "string list"
  p_price :: 'n
  p_stock :: 'n
  p_dateCreated :: nat

record 'n orderItem =
  oi_quantity :: 'n
  oi_product :: oid

record 'n order =
  o_orderItems :: "oid list"
  o_totalPrice :: 'n
  o_user :: "oid option"
  o_dateOrdered :: nat

record 'n db =
  users :: "user collection"
  products :: "'n product collection"
  orderItems :: "'n orderItem collection"
  orders :: "'n order collection"
  nextId :: oid

subsection \<open>The storage layer\<close>

text \<open>
  \<open>new Model(...)\<close> draws the document id from the generator; \<open>save\<close> appends the document
  to its collection unless the call is rejected.
\<close>

definition new_id :: "'n db \<Rightarrow> oid \<times> 'n db" where
  "new_id d = (nextId d, d\<lparr>nextId := Suc (nextId d)\<rparr>)"

definition find_all :: "storage \<Rightarrow> 'd collection \<Rightarrow> 'd doc list option promise" where
  "find_all st c = (case st of Fails \<Rightarrow> Rejected | Succeeds \<Rightarrow> Resolved (Some c))"

definition findById :: "storage \<Rightarrow> 'd collection \<Rightarrow> oid \<Rightarrow> 'd doc option promise" where
  "findById st c i =
     (case st of
        Fails \<Rightarrow> Rejected
      | Succeeds \<Rightarrow> Resolved (map_option (\<lambda>x. (i, x)) (map_of c i)))"

definition update_doc :: "oid \<Rightarrow> ('d \<Rightarrow> 'd) \<Rightarrow> 'd collection \<Rightarrow> 'd collection" where
  "update_doc i f c = map (\<lambda>(j, x). if j = i then (j, f x) else (j, x)) c"

definition remove_doc :: "oid \<Rightarrow> 'd collection \<Rightarrow> 'd collection" where
  "remove_doc i c = filter (\<lambda>(j, x). j \<noteq> i) c"

subsection \<open>Product routes\<close>

text \<open>\<open>GET /products\<close>; the argument is the settled \<open>Product.find()\<close>.\<close>

definition products_get :: "'n product doc list option promise \<Rightarrow> 'n product res \<Rightarrow> 'n product res" where
  "products_get found res =
     (let (productList, res1) =
            (case found of
               Rejected \<Rightarrow>
                 (ResObject,
                  json (Envelope False ''message'' ''Internal Server Error'') (status 400 res))
             | Resolved v \<Rightarrow> (of_option v, res));
          res2 = (if falsy productList
                  then json (Envelope False ''error'' ''Products not found'') (status 404 res1)
                  else res1)
      in send (docs_body productList) res2)"

definition route_products_get :: "storage \<Rightarrow> 'n db \<Rightarrow> 'n product res" where
  "route_products_get st d = products_get (find_all st (products d)) res0"

text \<open>
  \<open>POST /products\<close>, after \<open>uploadOptions.single("image")\<close> has run: \<open>req.file\<close> is the
  stored file, or \<open>undefined\<close> when the request carried no file.
\<close>

record upload =
  f_filename :: string

record 'n product_req =
  pr_protocol :: string
  pr_host :: string
  pr_file :: "upload option"
  pr_name :: "string option"
  pr_description :: "string option"
  pr_detailDescription :: "string option"
  pr_price :: 'n
  pr_stock :: 'n

definition basePath :: "string \<Rightarrow> string \<Rightarrow> string" where
  "basePath protocol host = protocol @ ''://'' @ host @ ''/public/uploads/''"

definition Product_save :: "storage \<Rightarrow> 'n product doc \<Rightarrow> 'n db \<Rightarrow> 'n product doc promise \<times> 'n db" where
  "Product_save st p d =
     (case st of
        Fails \<Rightarrow> (Rejected, d)
      | Succeeds \<Rightarrow> (Resolved p, d\<lparr>products := products d @ [p]\<rparr>))"

definition products_post ::
  "nat \<Rightarrow> storage \<Rightarrow> 'n product_req \<Rightarrow> 'n db \<Rightarrow> 'n product res \<Rightarrow> 'n product res \<times> 'n db" where
  "products_post now st req d res =
     (case pr_file req of
        None \<Rightarrow>
          (json (Envelope False ''message'' ''Image file is not presented'') (status 400 res), d)
      | Some upl \<Rightarrow>
          (let fileName = f_filename upl;
               base = basePath (pr_protocol req) (pr_host req);
               (i, d1) = new_id d;
               product = (i, \<lparr>p_name = pr_name req,
                              p_description = pr_description req,
                              p_detailDescription = pr_detailDescription req,
                              p_image = base @ fileName,
                              p_images = [],
                              p_price = pr_price req,
                              p_stock = pr_stock req,
                              p_dateCreated = now\<rparr>);
               (saved, d2) = Product_save st product d1;
               (product1, res1) =
                 (case saved of
                    Rejected \<Rightarrow>
                      (ResObject,
                       json (Envelope False ''message'' ''Internal Server Error'') (status 500 res))
                  | Resolved p \<Rightarrow> (Val p, res))
           in if falsy product1
              then (json (Envelope False ''message'' ''Failed to create product'') (status 404 res1), d2)
              else (send (doc_body product1) res1, d2)))"

text \<open>
  \<open>PUT /products/gallery-images/:id\<close>, after \<open>uploadOptions.array("images", 10)\<close> has run:
  \<open>req.files\<close> is \<open>undefined\<close> for a request that is not multipart, and the array of the
  stored files (empty when the form carried no file part) for a multipart request.
\<close>

record gallery_req =
  gr_protocol :: string
  gr_host :: string
  gr_id :: oid
  gr_files :: "upload list option"

definition Product_findByIdAndUpdate ::
  "storage \<Rightarrow> oid \<Rightarrow> ('n product \<Rightarrow> 'n product) \<Rightarrow> 'n db \<Rightarrow> 'n product doc option promise \<times> 'n db" where
  "Product_findByIdAndUpdate st i f d =
     (case st of
        Fails \<Rightarrow> (Rejected, d)
      | Succeeds \<Rightarrow>
          (let c = update_doc i f (products d)
           in (Resolved (map_option (\<lambda>x. (i, x)) (map_of c i)), d\<lparr>products := c\<rparr>)))"

definition products_put_gallery ::
  "storage \<Rightarrow> gallery_req \<Rightarrow> 'n db \<Rightarrow> 'n product res \<Rightarrow> 'n product res \<times> 'n db" where
  "products_put_gallery st req d res =
     (let base = basePath (gr_protocol req) (gr_host req)
      in case gr_files req of
           None \<Rightarrow>
             (json (Envelope False ''message'' ''Image file is not presented'') (status 400 res), d)
         | Some files \<Rightarrow>
             (let imagesPaths = map (\<lambda>upl. base @ f_filename upl) files;
                  (updated, d1) =
                    Product_findByIdAndUpdate st (gr_id req) (\<lambda>p. p\<lparr>p_images := imagesPaths\<rparr>) d;
                  (product, res1) =
                    (case updated of
                       Rejected \<Rightarrow>
                         (ResObject,
                          json (Envelope False ''message'' ''Internal Server Error'') (status 400 res))
                     | Resolved v \<Rightarrow> (of_option v, res))
              in if falsy product
                 then (json (Envelope False ''message'' ''Product with given ID is not found!'')
                         (status 404 res1), d1)
                 else (send (doc_body product) res1, d1)))"

subsection \<open>User routes\<close>

text \<open>
  \<open>bcryptjs\<close> is a library outside the repository. The handlers receive its \<open>hash\<close> as a
  parameter: \<open>hash s rounds\<close> is the settled promise of \<open>bycrypt.hash(s, rounds)\<close> for this
  request, with whatever salt the library draws.
\<close>

type_synonym bcrypt_hash = "string option \<Rightarrow> nat \<Rightarrow> string promise"

record user_req =
  ur_id :: oid
  ur_name :: "string option"
  ur_email :: "string option"
  ur_password :: "string option"
  ur_isAdmin :: "bool option"

text \<open>\<open>GET /users\<close>; the argument is the settled \<open>User.find()\<close>.\<close>

definition users_get :: "user doc list option promise \<Rightarrow> user res \<Rightarrow> user res" where
  "users_get found res =
     (let (userList, res1) =
            (case found of
               Rejected \<Rightarrow>
                 (ResObject,
                  json (Envelope False ''message'' ''Internal Server Error'') (status 400 res))
             | Resolved v \<Rightarrow> (of_option v, res));
          res2 = (if falsy userList
                  then json (Envelope False ''error'' ''User not found'') (status 404 res1)
                  else res1)
      in send (docs_body userList) res2)"

definition route_users_get :: "storage \<Rightarrow> 'n db \<Rightarrow> user res" where
  "route_users_get st d = users_get (find_all st (users d)) res0"

text \<open>\<open>GET /users/:id\<close>; the argument is the settled \<open>User.findById(req.params.id)\<close>.\<close>

definition users_get_id :: "user doc option promise \<Rightarrow> user res \<Rightarrow> user res" where
  "users_get_id found res =
     (let (user, res1) =
            (case found of
               Rejected \<Rightarrow>
                 (ResObject,
                  json (Envelope False ''message'' ''Internal Server Error'') (status 400 res))
             | Resolved v \<Rightarrow> (of_option v, res))
      in if falsy user
         then json (Envelope False ''message'' ''User with given ID is not found'') (status 404 res1)
         else send (doc_body user) res1)"

definition route_users_get_id :: "storage \<Rightarrow> oid \<Rightarrow> 'n db \<Rightarrow> user res" where
  "route_users_get_id st i d = users_get_id (findById st (users d) i) res0"

definition User_save :: "storage \<Rightarrow> user doc \<Rightarrow> 'n db \<Rightarrow> user doc promise \<times> 'n db" where
  "User_save st u d =
     (case st of
        Fails \<Rightarrow> (Rejected, d)
      | Succeeds \<Rightarrow> (Resolved u, d\<lparr>users := users d @ [u]\<rparr>))"

text \<open>\<open>POST /users\<close>: a rejection anywhere inside \<open>try\<close> reaches the \<open>catch\<close> branch.\<close>

definition users_post ::
  "bcrypt_hash \<Rightarrow> storage \<Rightarrow> user_req \<Rightarrow> 'n db \<Rightarrow> user res \<Rightarrow> user res \<times> 'n db" where
  "users_post hash st req d res =
     (case hash (ur_password req) 11 of
        Rejected \<Rightarrow>
          (json (Envelope False ''message'' ''Internal Server Error!'') (status 500 res), d)
      | Resolved hashedPassword \<Rightarrow>
          (let (i, d1) = new_id d;
               user = (i, \<lparr>u_name = ur_name req,
                           u_email = ur_email req,
                           u_password = hashedPassword,
                           u_isAdmin = ur_isAdmin req\<rparr>);
               (saved, d2) = User_save st user d1
           in case saved of
                Rejected \<Rightarrow>
                  (json (Envelope False ''message'' ''Internal Server Error!'') (status 500 res), d2)
              | Resolved user1 \<Rightarrow>
                  if falsy (Val user1)
                  then (json (Envelope False ''message'' ''Failed to create user!'')
                          (status 400 res), d2)
                  else (send (Doc user1) res, d2)))"

definition User_findByIdAndUpdate ::
  "storage \<Rightarrow> oid \<Rightarrow> (user \<Rightarrow> user) \<Rightarrow> 'n db \<Rightarrow> user doc option promise \<times> 'n db" where
  "User_findByIdAndUpdate st i f d =
     (case st of
        Fails \<Rightarrow> (Rejected, d)
      | Succeeds \<Rightarrow>
          (let c = update_doc i f (users d)
           in (Resolved (map_option (\<lambda>x. (i, x)) (map_of c i)), d\<lparr>users := c\<rparr>)))"

text \<open>
  \<open>PUT /users/:id\<close>. The update document lists all four fields, so each is set to the value
  the request supplies, \<open>undefined\<close> included.
\<close>

definition users_put ::
  "bcrypt_hash \<Rightarrow> storage \<Rightarrow> user_req \<Rightarrow> 'n db \<Rightarrow> user res \<Rightarrow> user res \<times> 'n db" where
  "users_put hash st req d res =
     (case hash (ur_password req) 11 of
        Rejected \<Rightarrow>
          (json (Envelope False ''message'' ''Internal Server Error!'') (status 500 res), d)
      | Resolved hashedPassword \<Rightarrow>
          (let (updated, d1) =
                 User_findByIdAndUpdate st (ur_id req)
                   (\<lambda>u. u\<lparr>u_name := ur_name req,
                           u_email := ur_email req,
                           u_password := hashedPassword,
                           u_isAdmin := ur_isAdmin req\<rparr>) d
           in case updated of
                Rejected \<Rightarrow>
                  (json (Envelope False ''message'' ''Internal Server Error!'') (status 500 res), d1)
              | Resolved v \<Rightarrow>
                  (let user = of_option v
                   in if falsy user
                      then (json (Envelope False ''message'' ''User with given ID is not found!'')
                              (status 404 res), d1)
                      else (send (doc_body user) res, d1))))"

subsection \<open>Order routes\<close>

record 'n item_input =
  ii_quantity :: 'n
  ii_product :: oid

record 'n order_req =
  or_orderItems :: "'n item_input list option"
  or_user :: "oid option"

text \<open>
  The condition of the storage layer for each storage call of \<open>POST /orders\<close>: the save and
  the later fetch of the \<open>k\<close>-th order item, and the save of the order.
\<close>

record post_storage =
  save_item :: "nat \<Rightarrow> storage"
  find_item :: "nat \<Rightarrow> storage"
  save_order :: storage

definition OrderItem_save :: "storage \<Rightarrow> 'n orderItem doc \<Rightarrow> 'n db \<Rightarrow> 'n orderItem doc promise \<times> 'n db" where
  "OrderItem_save st x d =
     (case st of
        Fails \<Rightarrow> (Rejected, d)
      | Succeeds \<Rightarrow> (Resolved x, d\<lparr>orderItems := orderItems d @ [x]\<rparr>))"

definition Order_save :: "storage \<Rightarrow> 'n order doc \<Rightarrow> 'n db \<Rightarrow> 'n order doc promise \<times> 'n db" where
  "Order_save st x d =
     (case st of
        Fails \<Rightarrow> (Rejected, d)
      | Succeeds \<Rightarrow> (Resolved x, d\<lparr>orders := orders d @ [x]\<rparr>))"

text \<open>
  \<open>req.body.orderItems.map(async (orderItem) => ...)\<close>: every callback builds its document
  and starts its save, whatever becomes of the other saves; the result is the list of the
  promises of the new ids.
\<close>

fun save_items :: "(nat \<Rightarrow> storage) \<Rightarrow> nat \<Rightarrow> 'n item_input list \<Rightarrow> 'n db \<Rightarrow> oid promise list \<times> 'n db" where
  "save_items c k [] d = ([], d)"
| "save_items c k (orderItem # rest) d =
     (let (i, d1) = new_id d;
          newOrderItem = (i, \<lparr>oi_quantity = ii_quantity orderItem,
                               oi_product = ii_product orderItem\<rparr>);
          (saved, d2) = OrderItem_save (c k) newOrderItem d1;
          (ps, d3) = save_items c (Suc k) rest d2
      in ((case saved of Rejected \<Rightarrow> Rejected | Resolved x \<Rightarrow> Resolved (fst x)) # ps, d3))"

fun promise_all :: "'a promise list \<Rightarrow> 'a list promise" where
  "promise_all [] = Resolved []"
| "promise_all (Rejected # ps) = Rejected"
| "promise_all (Resolved v # ps) =
     (case promise_all ps of Rejected \<Rightarrow> Rejected | Resolved vs \<Rightarrow> Resolved (v # vs))"

text \<open>
  The second callback: fetch the order item, join its product, multiply. Reading \<open>price\<close>
  off a missing order item or a missing product throws, which rejects the promise.
\<close>

definition item_total :: "storage \<Rightarrow> 'n::times db \<Rightarrow> oid \<Rightarrow> 'n promise" where
  "item_total st d orderItemId =
     (case findById st (orderItems d) orderItemId of
        Rejected \<Rightarrow> Rejected
      | Resolved None \<Rightarrow> Rejected
      | Resolved (Some orderItem) \<Rightarrow>
          (case map_of (products d) (oi_product (snd orderItem)) of
             None \<Rightarrow> Rejected
           | Some product \<Rightarrow> Resolved (p_price product * oi_quantity (snd orderItem))))"

definition internal_error :: "'n order res \<Rightarrow> 'n order res" where
  "internal_error res = json (Envelope False ''message'' ''Internal Server Error!s'') (status 500 res)"

definition orders_post ::
  "nat \<Rightarrow> post_storage \<Rightarrow> 'n order_req \<Rightarrow> 'n::{zero,plus,times} db \<Rightarrow> 'n order res
     \<Rightarrow> 'n order res \<times> 'n db" where
  "orders_post now env req d res =
     (case or_orderItems req of
        None \<Rightarrow> (internal_error res, d)
      | Some items \<Rightarrow>
          (let (saves, d1) = save_items (save_item env) 0 items d
           in case promise_all saves of
                Rejected \<Rightarrow> (internal_error res, d1)
              | Resolved orderItemsIds \<Rightarrow>
                  (case promise_all
                          (map (\<lambda>(k, orderItemId). item_total (find_item env k) d1 orderItemId)
                             (enumerate 0 orderItemsIds)) of
                     Rejected \<Rightarrow> (internal_error res, d1)
                   | Resolved totalPrices \<Rightarrow>
                       (let totalPrice = foldl (\<lambda>a b. a + b) 0 totalPrices;
                            (i, d2) = new_id d1;
                            order = (i, \<lparr>o_orderItems = orderItemsIds,
                                         o_totalPrice = totalPrice,
                                         o_user = or_user req,
                                         o_dateOrdered = now\<rparr>);
                            (saved, d3) = Order_save (save_order env) order d2
                        in case saved of
                             Rejected \<Rightarrow> (internal_error res, d3)
                           | Resolved order1 \<Rightarrow>
                               if falsy (Val order1)
                               then (json (Envelope False ''message'' ''Failed to create order!'')
                                       (status 400 res), d3)
                               else (send (Doc order1) res, d3)))))"

text \<open>
  The condition of the storage layer for each storage call of \<open>DELETE /orders/:id\<close>: the
  removal of the order and the removal of its \<open>k\<close>-th order item.
\<close>

record delete_storage =
  remove_order :: storage
  remove_item :: "nat \<Rightarrow> storage"

definition Order_findByIdAndRemove ::
  "storage \<Rightarrow> oid \<Rightarrow> 'n db \<Rightarrow> 'n order doc option promise \<times> 'n db" where
  "Order_findByIdAndRemove st i d =
     (case st of
        Fails \<Rightarrow> (Rejected, d)
      | Succeeds \<Rightarrow>
          (Resolved (map_option (\<lambda>x. (i, x)) (map_of (orders d) i)),
           d\<lparr>orders := remove_doc i (orders d)\<rparr>))"

text \<open>
  \<open>await deletedOrder.orderItems.map(async (orderItem) => ...)\<close> awaits an array, not a
  promise: every callback starts its removal, and the handler goes on to answer without
  waiting for any of them. After a rejected removal of the order, \<open>deletedOrder\<close> is the
  response object: it has no \<open>orderItems\<close>, the call of \<open>map\<close> throws, and the handler sends
  nothing more.

  The result is the response, the store at the moment the handler answers, and the ids of
  the order items whose removal has been started and has not settled.
\<close>

definition orders_delete ::
  "delete_storage \<Rightarrow> oid \<Rightarrow> 'n db \<Rightarrow> 'n order res \<Rightarrow> 'n order res \<times> 'n db \<times> oid list" where
  "orders_delete env i d res =
     (let (removed, d1) = Order_findByIdAndRemove (remove_order env) i d;
          (deletedOrder, res1) =
            (case removed of
               Rejected \<Rightarrow>
                 (ResObject,
                  json (Envelope False ''message'' ''Internal Server Error!'') (status 500 res))
             | Resolved v \<Rightarrow> (of_option v, res))
      in case deletedOrder of
           Null \<Rightarrow> (json (Envelope False ''message'' ''Order not found!'') (status 404 res1), d1, [])
         | ResObject \<Rightarrow> (res1, d1, [])
         | Val ord \<Rightarrow>
             (json (Envelope True ''message'' ''Order successfully deleted!'') (status 200 res1),
              d1, o_orderItems (snd ord)))"

text \<open>
  What becomes of the removals in flight, after the answer: \<open>OrderItem.findByIdAndRemove\<close>
  removes the document unless the storage layer rejects the call; a rejected removal is
  dropped, nothing reads its promise.
\<close>

definition OrderItem_findByIdAndRemove :: "storage \<Rightarrow> oid \<Rightarrow> 'n db \<Rightarrow> 'n db" where
  "OrderItem_findByIdAndRemove st i d =
     (case st of
        Fails \<Rightarrow> d
      | Succeeds \<Rightarrow> d\<lparr>orderItems := remove_doc i (orderItems d)\<rparr>)"

fun remove_items :: "(nat \<Rightarrow> storage) \<Rightarrow> nat \<Rightarrow> oid list \<Rightarrow> 'n db \<Rightarrow> 'n db" where
  "remove_items c k [] d = d"
| "remove_items c k (orderItem # rest) d =
     remove_items c (Suc k) rest (OrderItem_findByIdAndRemove (c k) orderItem d)"

definition settle_removals :: "delete_storage \<Rightarrow> 'n db \<times> oid list \<Rightarrow> 'n db" where
  "settle_removals env pending = remove_items (remove_item env) 0 (snd pending) (fst pending)"

text \<open>
  Ids are unique: the generator has not yet issued the id of any stored order item.
\<close>

definition ids_fresh :: "'n db \<Rightarrow> bool" where
  "ids_fresh d = list_all (\<lambda>x. fst x < nextId d) (orderItems d)"

subsection \<open>JavaScript numbers with integer values\<close>

text \<open>
  An instance of the number type, used where a theorem is run at a concrete input: the
  IEEE doubles whose value is an integer, and one further element \<open>NonFinite\<close> that stands
  for \<open>Infinity\<close>, \<open>-Infinity\<close> and \<open>NaN\<close> alike (an operation with such an operand yields
  one of the three again). A product or a sum of two integer doubles is the exact result
  rounded to 53 significant bits, to nearest and ties to even, which is an integer again;
  it is not finite when the rounded result reaches \<open>2 ^ 1024\<close>. The sign of zero is not
  kept.
\<close>

datatype jsnum = Finite int | NonFinite

text \<open>The spacing of the doubles around a magnitude \<open>a\<close>: 1 below \<open>2 ^ 53\<close>, doubling with \<open>a\<close>.\<close>

function ulp :: "int \<Rightarrow> int" where
  "ulp a = (if a < 2 ^ 53 then 1 else 2 * ulp (a div 2))"
  by pat_completeness auto
termination
  by (relation "measure nat") auto

declare ulp.simps [simp del]

definition round53 :: "int \<Rightarrow> int" where
  "round53 x =
     (let a = \<bar>x\<bar>;
          q = ulp a;
          m = a div q;
          r = a mod q;
          m1 = (if 2 * r > q \<or> (2 * r = q \<and> odd m) then m + 1 else m)
      in sgn x * (m1 * q))"

definition js_round :: "int \<Rightarrow> jsnum" where
  "js_round x = (let y = round53 x in if \<bar>y\<bar> < 2 ^ 1024 then Finite y else NonFinite)"

instantiation jsnum :: "{zero, plus, times}"
begin

definition zero_jsnum :: jsnum where
  "zero_jsnum = Finite 0"

fun plus_jsnum :: "jsnum \<Rightarrow> jsnum \<Rightarrow> jsnum" where
  "plus_jsnum (Finite a) (Finite b) = js_round (a + b)"
| "plus_jsnum NonFinite b = NonFinite"
| "plus_jsnum a NonFinite = NonFinite"

fun times_jsnum :: "jsnum \<Rightarrow> jsnum \<Rightarrow> jsnum" where
  "times_jsnum (Finite a) (Finite b) = js_round (a * b)"
| "times_jsnum NonFinite b = NonFinite"
| "times_jsnum a NonFinite = NonFinite"

instance ..

end

subsection \<open>Example data\<close>

text \<open>Concrete stores and requests at which the theorems below are instantiated.\<close>

definition shirt :: "jsnum product" where
  "shirt = \<lparr>p_name = Some ''Shirt'', p_description = Some ''d'', p_detailDescription = None,
     p_image = ''http://h/public/uploads/a.png'', p_images = [''http://h/public/uploads/b.png''],
     p_price = Finite 1000, p_stock = Finite 5, p_dateCreated = 0\<rparr>"

definition ragil :: user where
  "ragil = \<lparr>u_name = Some ''Ragil'', u_email = Some ''r@gil.com'',
     u_password = ''$2a$11$abc'', u_isAdmin = Some True\<rparr>"

definition db_one_user :: "jsnum db" where
  "db_one_user = \<lparr>users = [(7, ragil)], products = [], orderItems = [], orders = [], nextId = 8\<rparr>"

definition db_shop :: "jsnum db" where
  "db_shop = \<lparr>users = [(7, ragil)], products = [(1, shirt)], orderItems = [], orders = [],
     nextId = 8\<rparr>"

definition db_ordered :: "jsnum db" where
  "db_ordered = \<lparr>users = [(7, ragil)], products = [(1, shirt)],
     orderItems = [(8, \<lparr>oi_quantity = Finite 2, oi_product = 1\<rparr>),
                   (9, \<lparr>oi_quantity = Finite 3, oi_product = 1\<rparr>),
                   (11, \<lparr>oi_quantity = Finite 1, oi_product = 1\<rparr>)],
     orders = [(10, \<lparr>o_orderItems = [8, 9], o_totalPrice = Finite 5000, o_user = Some 7,
                     o_dateOrdered = 5\<rparr>)],
     nextId = 12\<rparr>"

text \<open>A product priced at the largest integer below \<open>2 ^ 53\<close>.\<close>

definition jewel :: "jsnum product" where
  "jewel = \<lparr>p_name = Some ''Jewel'', p_description = Some ''d'', p_detailDescription = None,
     p_image = ''http://h/public/uploads/j.png'', p_images = [],
     p_price = Finite 9007199254740991, p_stock = Finite 5, p_dateCreated = 0\<rparr>"

definition db_jewel :: "jsnum db" where
  "db_jewel = \<lparr>users = [(7, ragil)], products = [(1, jewel)], orderItems = [], orders = [],
     nextId = 8\<rparr>"

definition storage_up :: post_storage where
  "storage_up = \<lparr>save_item = (\<lambda>k. Succeeds), find_item = (\<lambda>k. Succeeds),
     save_order = Succeeds\<rparr>"

text \<open>
  A stand-in for \<open>bcryptjs\<close>, used to instantiate the theorems below at a concrete input:
  it rejects a password that is not a string, as the library does, and its \<open>compare\<close>
  accepts exactly the hashes it produces.
\<close>

definition stub_hash :: bcrypt_hash where
  "stub_hash s rounds = (case s of None \<Rightarrow> Rejected | Some x \<Rightarrow> Resolved (''$2a$'' @ x))"

definition stub_compare :: "string \<Rightarrow> string \<Rightarrow> bool" where
  "stub_compare s x = (x = ''$2a$'' @ s)"

definition req_ragil :: user_req where
  "req_ragil = \<lparr>ur_id = 7, ur_name = Some ''Ragil'', ur_email = None,
     ur_password = Some ''secret'', ur_isAdmin = None\<rparr>"


section \<open>Properties of the handlers\<close>

subsection \<open>Auxiliary facts about collections\<close>

lemmas res_defs = res0_def status_def json_def send_def

lemma map_of_update_doc:
  "map_of (update_doc i f c) j = (if j = i then map_option f (map_of c j) else map_of c j)"
  by (induction c) (auto simp: update_doc_def)

lemma update_doc_absent: "map_of c i = None \<Longrightarrow> update_doc i f c = c"
  by (induction c) (auto simp: update_doc_def split: if_splits)

lemma map_of_remove_doc: "map_of (remove_doc i c) j = (if j = i then None else map_of c j)"
  by (induction c) (auto simp: remove_doc_def)

subsection \<open>Auxiliary facts about the numbers with integer values\<close>

lemma ulp_small: "a < 2 ^ 53 \<Longrightarrow> ulp a = 1"
  by (subst ulp.simps) simp

lemma round53_small: "\<bar>x\<bar> < 2 ^ 53 \<Longrightarrow> round53 x = x"
  by (simp add: round53_def ulp_small Let_def sgn_if)

lemma js_round_small: "\<bar>x\<bar> < 2 ^ 53 \<Longrightarrow> js_round x = Finite x"
proof -
  assume small: "\<bar>x\<bar> < 2 ^ 53"
  have "(2::int) ^ 53 \<le> 2 ^ 1024" by (rule power_increasing) simp_all
  with small have "\<bar>x\<bar> < 2 ^ 1024" by (rule less_le_trans)
  with small show ?thesis by (simp only: js_round_def round53_small Let_def if_True)
qed

text \<open>
  Where nothing is rounded the fold is the exact sum: so it is for prices and quantities
  that are non-negative integers with an exact total below \<open>2 ^ 53\<close>.
\<close>

lemma js_sum_exact:
  assumes "\<forall>x\<in>set xs. 0 \<le> x" and "0 \<le> a" and "a + sum_list xs < 2 ^ 53"
  shows "foldl (\<lambda>a b. a + b) (Finite a) (map Finite xs) = Finite (a + sum_list xs)"
  using assms
proof (induction xs arbitrary: a)
  case Nil
  then show ?case by simp
next
  case (Cons x xs)
  have nonneg: "0 \<le> sum_list xs"
    using Cons.prems(1) by (simp add: sum_list_nonneg)
  have "\<bar>a + x\<bar> < 2 ^ 53"
    using Cons.prems nonneg by simp
  then have step: "Finite a + Finite x = Finite (a + x)"
    by (simp add: js_round_small)
  have "foldl (\<lambda>a b. a + b) (Finite (a + x)) (map Finite xs) = Finite (a + x + sum_list xs)"
    using Cons.prems by (intro Cons.IH) (simp_all add: add.assoc)
  then show ?case
    by (simp add: step add.assoc del: plus_jsnum.simps)
qed

lemma js_total_exact:
  assumes nonneg: "\<forall>x\<in>set pqs. 0 \<le> fst x \<and> 0 \<le> snd x"
    and small: "(\<Sum>x\<leftarrow>pqs. fst x * snd x) < 2 ^ 53"
  shows "foldl (\<lambda>a b. a + b) 0 (map (\<lambda>x. Finite (fst x) * Finite (snd x)) pqs) =
           Finite (\<Sum>x\<leftarrow>pqs. fst x * snd x)"
proof -
  have terms: "\<forall>y\<in>set (map (\<lambda>x. fst x * snd x) pqs). 0 \<le> y"
    using nonneg by auto
  have each: "fst x * snd x < 2 ^ 53" if "x \<in> set pqs" for x
  proof -
    have "fst x * snd x \<le> sum_list (map (\<lambda>x. fst x * snd x) pqs)"
      using that terms by (intro member_le_sum_list) auto
    with small show ?thesis by simp
  qed
  have maps: "map (\<lambda>x. Finite (fst x) * Finite (snd x)) pqs =
              map Finite (map (\<lambda>x. fst x * snd x) pqs)"
  proof -
    have "Finite (fst x) * Finite (snd x) = Finite (fst x * snd x)" if "x \<in> set pqs" for x
    proof -
      have "0 \<le> fst x * snd x" using nonneg that by simp
      with each [OF that] have "\<bar>fst x * snd x\<bar> < 2 ^ 53" by simp
      then show ?thesis by (simp add: js_round_small)
    qed
    then show ?thesis by simp
  qed
  have "foldl (\<lambda>a b. a + b) (Finite 0) (map Finite (map (\<lambda>x. fst x * snd x) pqs)) =
          Finite (0 + (\<Sum>x\<leftarrow>pqs. fst x * snd x))"
    using small by (intro js_sum_exact [OF terms]) simp_all
  then show ?thesis
    by (simp only: maps zero_jsnum_def add_0)
qed

text \<open>Three times the largest integer below \<open>2 ^ 53\<close> lies where the doubles are 4 apart.\<close>

lemma js_round_jewel_total: "js_round 27021597764222973 = Finite 27021597764222972"
proof -
  have "ulp 27021597764222973 = 4"
    by (simp add: ulp.simps)
  then have "round53 27021597764222973 = 27021597764222972"
    by (simp add: round53_def Let_def)
  then show ?thesis
    by (simp add: js_round_def Let_def)
qed

lemma js_round_rounded_total: "js_round 27021597764222972 = Finite 27021597764222972"
proof -
  have "ulp 27021597764222972 = 4"
    by (simp add: ulp.simps)
  then have "round53 27021597764222972 = 27021597764222972"
    by (simp add: round53_def Let_def)
  then show ?thesis
    by (simp add: js_round_def Let_def)
qed

subsection \<open>Product routes\<close>

text \<open>
  Claim C8. \<open>GET /products\<close>: when \<open>Product.find()\<close> is rejected the handler sends status 400
  with the generic message (and then passes the response object to a second \<open>send\<close>); when
  the query resolves to \<open>null\<close> the handler sends the 404 envelope and then still sends the
  \<open>null\<close> list, a second send on the same response.
\<close>

theorem products_get_error_and_null:
  "sent (products_get Rejected res0) =
     [(400, Envelope False ''message'' ''Internal Server Error''), (400, ResBody)]
   \<and> delivered (route_products_get Fails d) =
       Some (400, Envelope False ''message'' ''Internal Server Error'')
   \<and> sent (products_get (Resolved None) res0) =
       [(404, Envelope False ''error'' ''Products not found''), (404, NullBody)]"
  by (simp add: products_get_def route_products_get_def find_all_def delivered_def res_defs)

text \<open>
  Claim C2. \<open>POST /products\<close> without an attached image: the only response is status 400
  with the message that the image is missing, and the store is returned unchanged, so no
  product is persisted, whatever the rest of the request and the state of the storage layer.
\<close>

theorem products_post_no_image:
  assumes "pr_file req = None"
  shows "products_post now st req d res0 =
           (\<lparr>statusCode = 400,
             sent = [(400, Envelope False ''message'' ''Image file is not presented'')]\<rparr>, d)"
  using assms by (simp add: products_post_def res_defs)

theorem products_post_no_image_witness:
  "products_post 0 Succeeds
     \<lparr>pr_protocol = ''http'', pr_host = ''h'', pr_file = None, pr_name = Some ''Shirt'',
      pr_description = Some ''d'', pr_detailDescription = None, pr_price = Finite 1000,
      pr_stock = Finite 5\<rparr>
     \<lparr>users = [], products = [], orderItems = [], orders = [], nextId = 0\<rparr> res0 =
   (\<lparr>statusCode = 400,
     sent = [(400, Envelope False ''message'' ''Image file is not presented'')]\<rparr>,
    \<lparr>users = [], products = [], orderItems = [], orders = [], nextId = 0\<rparr>)"
  by (rule products_post_no_image) simp

text \<open>
  \<open>PUT /products/gallery-images/:id\<close> with an array of files: the images of an existing
  product are replaced by the URLs of the files, and an unknown id is answered with 404.
\<close>

lemma gallery_replaces_images:
  assumes "gr_files req = Some files" and "map_of (products d) (gr_id req) = Some p"
  shows "products_put_gallery Succeeds req d res0 =
           (\<lparr>statusCode = 200,
             sent = [(200, Doc (gr_id req,
                       p\<lparr>p_images := map (\<lambda>upl. basePath (gr_protocol req) (gr_host req)
                                                   @ f_filename upl) files\<rparr>))]\<rparr>,
            d\<lparr>products := update_doc (gr_id req)
                 (\<lambda>p. p\<lparr>p_images := map (\<lambda>upl. basePath (gr_protocol req) (gr_host req)
                                                   @ f_filename upl) files\<rparr>) (products d)\<rparr>)"
  using assms
  by (simp add: products_put_gallery_def Product_findByIdAndUpdate_def map_of_update_doc
      Let_def res_defs)

lemma gallery_unknown_id:
  assumes "gr_files req = Some files" and "map_of (products d) (gr_id req) = None"
  shows "products_put_gallery Succeeds req d res0 =
           (\<lparr>statusCode = 404,
             sent = [(404, Envelope False ''message'' ''Product with given ID is not found!'')]\<rparr>,
            d)"
  using assms
  by (simp add: products_put_gallery_def Product_findByIdAndUpdate_def map_of_update_doc
      update_doc_absent Let_def res_defs)

lemma gallery_no_files_property:
  assumes "gr_files req = None"
  shows "products_put_gallery st req d res0 =
           (\<lparr>statusCode = 400,
             sent = [(400, Envelope False ''message'' ''Image file is not presented'')]\<rparr>, d)"
  using assms by (simp add: products_put_gallery_def res_defs)

text \<open>
  Claim C7. A gallery update must be answered with 400 when no image file is attached.
  The handler tests \<open>!files\<close>, which holds only when \<open>req.files\<close> is \<open>undefined\<close>. A multipart
  request that carries no file reaches the handler with the empty array, which is truthy:
  the handler then replaces the gallery of the product by the empty sequence and answers
  200 with the product.
\<close>

theorem gallery_empty_upload_accepted:
  "products_put_gallery Succeeds
     \<lparr>gr_protocol = ''http'', gr_host = ''h'', gr_id = 1, gr_files = Some []\<rparr>
     \<lparr>users = [], products = [(1, shirt)], orderItems = [], orders = [], nextId = 2\<rparr> res0 =
   (\<lparr>statusCode = 200, sent = [(200, Doc (1, shirt\<lparr>p_images := []\<rparr>))]\<rparr>,
    \<lparr>users = [], products = [(1, shirt\<lparr>p_images := []\<rparr>)], orderItems = [], orders = [],
     nextId = 2\<rparr>)"
  by (simp add: products_put_gallery_def Product_findByIdAndUpdate_def update_doc_def res_defs)

subsection \<open>User routes\<close>

text \<open>
  Claim C10. The user read routes send the stored documents as they are: \<open>GET /users\<close>
  answers 200 with the whole collection, and \<open>GET /users/:id\<close> on an existing user answers
  200 with the stored document of that id. The body is the stored record itself, so its
  password field is the stored hash; no field is dropped.
\<close>

theorem users_read_raw:
  "sent (route_users_get Succeeds d) = [(200, Docs (users d))]
   \<and> (map_of (users d) i = Some u \<longrightarrow>
        sent (route_users_get_id Succeeds i d) = [(200, Doc (i, u))])"
  by (simp add: route_users_get_def users_get_def route_users_get_id_def users_get_id_def
      find_all_def findById_def res_defs)

theorem users_read_raw_witness:
  "sent (route_users_get Succeeds db_one_user) = [(200, Docs [(7, ragil)])]
   \<and> sent (route_users_get_id Succeeds 7 db_one_user) = [(200, Doc (7, ragil))]
   \<and> u_password ragil = ''$2a$11$abc''"
  using users_read_raw [of db_one_user 7 ragil] by (simp add: db_one_user_def ragil_def)

text \<open>
  Claim C3. \<open>POST /users\<close> with a plaintext password, the storage layer accepting the save:
  the persisted user document holds, as its password, the value that
  \<open>bycrypt.hash(plaintext, 11)\<close> resolved to. Given the contract of the library (for every
  string the hash of cost 11 resolves to a value that differs from the string and that
  \<open>compare\<close> accepts for it), the persisted password differs from the plaintext and
  verifying the plaintext against it succeeds.
\<close>

theorem users_post_hashes:
  assumes bcrypt: "\<And>s. \<exists>x. hash (Some s) 11 = Resolved x \<and> compare s x \<and> x \<noteq> s"
    and pw: "ur_password req = Some plaintext"
  shows "\<exists>stored. hash (Some plaintext) 11 = Resolved stored
           \<and> users_post hash Succeeds req d res0 =
               (\<lparr>statusCode = 200,
                 sent = [(200, Doc (nextId d, \<lparr>u_name = ur_name req, u_email = ur_email req,
                                             u_password = stored, u_isAdmin = ur_isAdmin req\<rparr>))]\<rparr>,
                d\<lparr>nextId := Suc (nextId d),
                  users := users d @ [(nextId d, \<lparr>u_name = ur_name req, u_email = ur_email req,
                                             u_password = stored, u_isAdmin = ur_isAdmin req\<rparr>)]\<rparr>)
           \<and> stored \<noteq> plaintext \<and> compare plaintext stored"
proof -
  from bcrypt obtain x where x: "hash (Some plaintext) 11 = Resolved x"
    "compare plaintext x" "x \<noteq> plaintext"
    by blast
  have "users_post hash Succeeds req d res0 =
               (\<lparr>statusCode = 200,
                 sent = [(200, Doc (nextId d, \<lparr>u_name = ur_name req, u_email = ur_email req,
                                             u_password = x, u_isAdmin = ur_isAdmin req\<rparr>))]\<rparr>,
                d\<lparr>nextId := Suc (nextId d),
                  users := users d @ [(nextId d, \<lparr>u_name = ur_name req, u_email = ur_email req,
                                             u_password = x, u_isAdmin = ur_isAdmin req\<rparr>)]\<rparr>)"
    using x(1) pw by (simp add: Let_def users_post_def new_id_def User_save_def res_defs)
  with x show ?thesis by blast
qed

theorem users_post_hashes_witness:
  "users (snd (users_post stub_hash Succeeds req_ragil db_one_user res0)) =
     [(7, ragil), (8, \<lparr>u_name = Some ''Ragil'', u_email = None,
                       u_password = ''$2a$secret'', u_isAdmin = None\<rparr>)]
   \<and> stub_compare ''secret'' ''$2a$secret'' \<and> ''$2a$secret'' \<noteq> ''secret''"
proof -
  have contract: "\<And>s. \<exists>x. stub_hash (Some s) 11 = Resolved x \<and> stub_compare s x \<and> x \<noteq> s"
    by (simp add: stub_hash_def stub_compare_def)
  have pw: "ur_password req_ragil = Some ''secret''"
    by (simp add: req_ragil_def)
  show ?thesis
    using users_post_hashes [of stub_hash stub_compare req_ragil "''secret''" db_one_user,
        OF contract pw]
    by (auto simp: stub_hash_def stub_compare_def req_ragil_def db_one_user_def)
qed

text \<open>
  Claim C5, as stated, about a request without a password: the fields of the user would be
  overwritten, and an unknown id answered with 404. With the library rejecting the hash of
  a value that is not a string, the handler answers 500 and leaves the user as it was, and
  it answers 500, not 404, when no user has the id.
\<close>

theorem users_put_undefined_password_counterexample:
  "users_put stub_hash Succeeds
     \<lparr>ur_id = 7, ur_name = Some ''New'', ur_email = Some ''n@gil.com'', ur_password = None,
      ur_isAdmin = Some False\<rparr> db_one_user res0 =
     (\<lparr>statusCode = 500,
       sent = [(500, Envelope False ''message'' ''Internal Server Error!'')]\<rparr>, db_one_user)
   \<and> map_of (users db_one_user) 7 = Some ragil
   \<and> u_name ragil \<noteq> Some ''New''
   \<and> users_put stub_hash Succeeds
     \<lparr>ur_id = 9, ur_name = Some ''New'', ur_email = Some ''n@gil.com'', ur_password = None,
      ur_isAdmin = Some False\<rparr> db_one_user res0 =
     (\<lparr>statusCode = 500,
       sent = [(500, Envelope False ''message'' ''Internal Server Error!'')]\<rparr>, db_one_user)"
  by (simp add: users_put_def stub_hash_def db_one_user_def ragil_def res_defs)

text \<open>
  Claim C5, amended. \<open>PUT /users/:id\<close>: the handler passes whatever password value the
  request supplies to the hash, with no test beforehand. If the hash is rejected (as it is
  for an absent password), the response is 500 and the store is unchanged, whether or not a
  user has the id and whatever the state of the storage layer. If the hash resolves (for
  any string, the empty one included), with the storage layer accepting the update: if a
  user has the given id, its name, email, password and isAdmin fields are all overwritten,
  by the supplied name, email and isAdmin (an absent one by \<open>undefined\<close>) and by the hash,
  and the response is the updated document; if no user has the id, the response is 404 and
  the store is unchanged.
\<close>

theorem users_put_by_hash_outcome:
  "(hash (ur_password req) 11 = Rejected \<longrightarrow>
      users_put hash st req d res0 =
        (\<lparr>statusCode = 500,
          sent = [(500, Envelope False ''message'' ''Internal Server Error!'')]\<rparr>, d))
   \<and> (hash (ur_password req) 11 = Resolved hashed \<longrightarrow>
        (map_of (users d) (ur_id req) = Some u \<longrightarrow>
           users_put hash Succeeds req d res0 =
             (\<lparr>statusCode = 200,
               sent = [(200, Doc (ur_id req, \<lparr>u_name = ur_name req, u_email = ur_email req,
                                            u_password = hashed, u_isAdmin = ur_isAdmin req\<rparr>))]\<rparr>,
              d\<lparr>users := update_doc (ur_id req)
                   (\<lambda>_. \<lparr>u_name = ur_name req, u_email = ur_email req,
                         u_password = hashed, u_isAdmin = ur_isAdmin req\<rparr>) (users d)\<rparr>))
      \<and> (map_of (users d) (ur_id req) = None \<longrightarrow>
           users_put hash Succeeds req d res0 =
             (\<lparr>statusCode = 404,
               sent = [(404, Envelope False ''message'' ''User with given ID is not found!'')]\<rparr>,
              d)))"
proof -
  have upd: "(\<lambda>u. u\<lparr>u_name := ur_name req, u_email := ur_email req, u_password := hashed,
                    u_isAdmin := ur_isAdmin req\<rparr>) =
             (\<lambda>_. \<lparr>u_name = ur_name req, u_email = ur_email req,
                          u_password = hashed, u_isAdmin = ur_isAdmin req\<rparr>)"
    by (rule ext) simp
  show ?thesis
    by (auto simp: Let_def users_put_def User_findByIdAndUpdate_def map_of_update_doc
        update_doc_absent upd res_defs)
qed

theorem users_put_by_hash_outcome_witness:
  "users_put stub_hash Fails (req_ragil\<lparr>ur_password := None\<rparr>) db_one_user res0 =
     (\<lparr>statusCode = 500,
       sent = [(500, Envelope False ''message'' ''Internal Server Error!'')]\<rparr>, db_one_user)
   \<and> users_put stub_hash Succeeds (req_ragil\<lparr>ur_password := Some []\<rparr>) db_one_user res0 =
     (\<lparr>statusCode = 200,
       sent = [(200, Doc (7, \<lparr>u_name = Some ''Ragil'', u_email = None,
                              u_password = ''$2a$'', u_isAdmin = None\<rparr>))]\<rparr>,
      db_one_user\<lparr>users := [(7, \<lparr>u_name = Some ''Ragil'', u_email = None,
                                   u_password = ''$2a$'', u_isAdmin = None\<rparr>)]\<rparr>)
   \<and> users_put stub_hash Succeeds (req_ragil\<lparr>ur_id := 9\<rparr>) db_one_user res0 =
     (\<lparr>statusCode = 404,
       sent = [(404, Envelope False ''message'' ''User with given ID is not found!'')]\<rparr>,
      db_one_user)"
  using users_put_by_hash_outcome
      [where hash = stub_hash and req = "req_ragil\<lparr>ur_password := None\<rparr>" and st = Fails
         and d = db_one_user and u = ragil and hashed = "[]"]
    users_put_by_hash_outcome
      [where hash = stub_hash and req = "req_ragil\<lparr>ur_password := Some []\<rparr>" and st = Fails
         and d = db_one_user and u = ragil and hashed = "''$2a$''"]
    users_put_by_hash_outcome
      [where hash = stub_hash and req = "req_ragil\<lparr>ur_id := 9\<rparr>" and st = Fails
         and d = db_one_user and u = ragil and hashed = "''$2a$secret''"]
  by (simp add: stub_hash_def req_ragil_def db_one_user_def update_doc_def)

subsection \<open>Order routes\<close>

text \<open>
  Claim C9. \<open>POST /orders\<close> with the empty list of order items, the storage layer accepting
  the save of the order: the response is 200 with an order whose \<open>orderItems\<close> is empty and
  whose \<open>totalPrice\<close> is 0; the order is appended to the orders and the collection of order
  items is left as it was.
\<close>

theorem orders_post_empty:
  assumes "or_orderItems req = Some []" and "save_order env = Succeeds"
  shows "orders_post now env req d res0 =
           (\<lparr>statusCode = 200,
             sent = [(200, Doc (nextId d, \<lparr>o_orderItems = [], o_totalPrice = 0,
                                         o_user = or_user req, o_dateOrdered = now\<rparr>))]\<rparr>,
            d\<lparr>nextId := Suc (nextId d),
              orders := orders d @ [(nextId d, \<lparr>o_orderItems = [], o_totalPrice = 0,
                                         o_user = or_user req, o_dateOrdered = now\<rparr>)]\<rparr>)"
  using assms by (simp add: Let_def orders_post_def new_id_def Order_save_def res_defs)

theorem orders_post_empty_witness:
  "orders_post 5 \<lparr>save_item = (\<lambda>k. Fails), find_item = (\<lambda>k. Fails), save_order = Succeeds\<rparr>
     \<lparr>or_orderItems = Some [], or_user = Some 7\<rparr> db_one_user res0 =
   (\<lparr>statusCode = 200,
     sent = [(200, Doc (8, \<lparr>o_orderItems = [], o_totalPrice = 0,
                             o_user = Some 7, o_dateOrdered = 5\<rparr>))]\<rparr>,
    \<lparr>users = [(7, ragil)], products = [], orderItems = [],
     orders = [(8, \<lparr>o_orderItems = [], o_totalPrice = 0, o_user = Some 7, o_dateOrdered = 5\<rparr>)],
     nextId = 9\<rparr>)"
  using orders_post_empty
    [of "\<lparr>or_orderItems = Some [], or_user = Some 7\<rparr>"
        "\<lparr>save_item = (\<lambda>k. Fails), find_item = (\<lambda>k. Fails), save_order = Succeeds\<rparr>"
        5 db_one_user]
  by (simp add: db_one_user_def)

text \<open>Facts about \<open>Promise.all\<close>, the fold and the saves of the order items.\<close>

lemma promise_all_map_Resolved: "promise_all (map Resolved vs) = Resolved vs"
  by (induction vs) simp_all

lemma promise_all_ResolvedD: "promise_all ps = Resolved vs \<Longrightarrow> ps = map Resolved vs"
proof (induction ps arbitrary: vs)
  case Nil
  then show ?case by simp
next
  case (Cons p ps)
  show ?case
  proof (cases p)
    case Rejected
    with Cons.prems show ?thesis by simp
  next
    case (Resolved v)
    with Cons.prems obtain ws where ws: "promise_all ps = Resolved ws" "vs = v # ws"
      by (auto split: promise.splits)
    with Cons.IH [of ws] Resolved show ?thesis by simp
  qed
qed

lemma save_items_ok:
  assumes "\<forall>p<length xs. c (k + p) = Succeeds"
  shows "save_items c k xs d =
           (map Resolved [nextId d..<nextId d + length xs],
            d\<lparr>nextId := nextId d + length xs,
              orderItems := orderItems d @
                zip [nextId d..<nextId d + length xs]
                  (map (\<lambda>x. \<lparr>oi_quantity = ii_quantity x, oi_product = ii_product x\<rparr>) xs)\<rparr>)"
  using assms
proof (induction xs arbitrary: k d)
  case Nil
  then show ?case by simp
next
  case (Cons x xs)
  have head: "c k = Succeeds"
    using Cons.prems by (metis add.right_neutral length_greater_0_conv list.distinct(1))
  have tail: "\<forall>p<length xs. c (Suc k + p) = Succeeds"
    using Cons.prems by auto
  have ids: "[nextId d..<Suc (nextId d + length xs)] =
               nextId d # [Suc (nextId d)..<Suc (nextId d + length xs)]"
    by (subst upt_rec) simp
  show ?case
    using head
    by (simp add: Cons.IH [OF tail] new_id_def OrderItem_save_def ids del: upt_Suc)
qed

lemma fresh_lookup:
  assumes "ids_fresh d" and "nextId d \<le> j"
  shows "map_of (orderItems d) j = None"
proof -
  have "j \<notin> fst ` set (orderItems d)"
    using assms by (auto simp: ids_fresh_def list_all_iff)
  then show ?thesis by (simp add: map_of_eq_None_iff)
qed

lemma new_item_lookup:
  assumes "ids_fresh d" and "k < length ys"
  shows "map_of (orderItems d @ zip [nextId d..<nextId d + length ys] ys) (nextId d + k) =
           Some (ys ! k)"
proof -
  have "map_of (zip [nextId d..<nextId d + length ys] ys) ([nextId d..<nextId d + length ys] ! k)
          = Some (ys ! k)"
    using assms(2) by (intro map_of_zip_nth) simp_all
  then have "map_of (zip [nextId d..<nextId d + length ys] ys) (nextId d + k) = Some (ys ! k)"
    using assms(2) by simp
  then show ?thesis
    using fresh_lookup [OF assms(1), of "nextId d + k"]
    by (simp add: map_add_def)
qed

lemma item_totals_ok:
  assumes fresh: "ids_fresh d"
    and finds: "\<forall>k<length items. c k = Succeeds"
    and prods: "\<forall>x\<in>set items. map_of (products d) (ii_product x) \<noteq> None"
    and d1: "d1 = d\<lparr>nextId := nextId d + length items,
               orderItems := orderItems d @
                 zip [nextId d..<nextId d + length items]
                   (map (\<lambda>x. \<lparr>oi_quantity = ii_quantity x, oi_product = ii_product x\<rparr>) items)\<rparr>"
  shows "map (\<lambda>(k, orderItemId). item_total (c k) d1 orderItemId)
           (enumerate 0 [nextId d..<nextId d + length items]) =
         map Resolved
           (map (\<lambda>x. p_price (the (map_of (products d) (ii_product x))) * ii_quantity x) items)"
proof (rule nth_equalityI)
  show "length (map (\<lambda>(k, orderItemId). item_total (c k) d1 orderItemId)
           (enumerate 0 [nextId d..<nextId d + length items])) =
        length (map Resolved
           (map (\<lambda>x. p_price (the (map_of (products d) (ii_product x))) * ii_quantity x) items))"
    by simp
next
  fix k
  assume "k < length (map (\<lambda>(k, orderItemId). item_total (c k) d1 orderItemId)
           (enumerate 0 [nextId d..<nextId d + length items]))"
  then have k: "k < length items" by simp
  let ?docs = "map (\<lambda>x. \<lparr>oi_quantity = ii_quantity x, oi_product = ii_product x\<rparr>) items"
  have look: "map_of (orderItems d1) (nextId d + k) = Some (?docs ! k)"
    using new_item_lookup [OF fresh, of k ?docs] k by (simp add: d1)
  obtain p where p: "map_of (products d) (ii_product (items ! k)) = Some p"
    using prods k by (metis nth_mem not_None_eq)
  have "item_total (c k) d1 (nextId d + k) =
          Resolved (p_price p * ii_quantity (items ! k))"
    using finds k look p by (simp add: item_total_def findById_def d1)
  then show "map (\<lambda>(k, orderItemId). item_total (c k) d1 orderItemId)
           (enumerate 0 [nextId d..<nextId d + length items]) ! k =
         map Resolved
           (map (\<lambda>x. p_price (the (map_of (products d) (ii_product x))) * ii_quantity x) items) ! k"
    using k p by (simp add: nth_enumerate_eq)
qed

lemma save_items_shift: "save_items c (Suc k) xs d = save_items (c \<circ> Suc) k xs d"
  by (induction xs arbitrary: k d) (simp_all add: Let_def split: prod.splits)

lemma save_items_general:
  "save_items c 0 xs d =
     (map (\<lambda>(k, x). case c k of Fails \<Rightarrow> Rejected | Succeeds \<Rightarrow> Resolved (nextId d + k))
        (enumerate 0 xs),
      d\<lparr>nextId := nextId d + length xs,
        orderItems := orderItems d @
          map (\<lambda>(k, x). (nextId d + k, \<lparr>oi_quantity = ii_quantity x, oi_product = ii_product x\<rparr>))
            (filter (\<lambda>(k, x). c k = Succeeds) (enumerate 0 xs))\<rparr>)"
proof (induction xs arbitrary: c d)
  case Nil
  then show ?case by simp
next
  case (Cons x xs)
  show ?case
    by (cases "c 0")
      (auto simp: save_items_shift Cons.IH new_id_def OrderItem_save_def enumerate_Suc_eq
        filter_map comp_def case_prod_unfold Let_def split: storage.splits)
qed


text \<open>
  Claim C1, as stated: the total is the sum of price times quantity. The handler multiplies
  and adds JavaScript numbers. For one item of quantity 3 of a product priced 9007199254740991
  the product is rounded: the order is created with \<open>totalPrice\<close> 27021597764222972, while
  the sum of price times quantity is 27021597764222973.
\<close>

theorem orders_post_total_rounded_counterexample:
  "orders_post 5 storage_up
     \<lparr>or_orderItems = Some [\<lparr>ii_quantity = Finite 3, ii_product = 1\<rparr>], or_user = Some 7\<rparr>
     db_jewel res0 =
   (\<lparr>statusCode = 200,
     sent = [(200, Doc (9, \<lparr>o_orderItems = [8], o_totalPrice = Finite 27021597764222972,
                             o_user = Some 7, o_dateOrdered = 5\<rparr>))]\<rparr>,
    \<lparr>users = [(7, ragil)], products = [(1, jewel)],
     orderItems = [(8, \<lparr>oi_quantity = Finite 3, oi_product = 1\<rparr>)],
     orders = [(9, \<lparr>o_orderItems = [8], o_totalPrice = Finite 27021597764222972,
                    o_user = Some 7, o_dateOrdered = 5\<rparr>)],
     nextId = 10\<rparr>)
   \<and> (9007199254740991::int) * 3 = 27021597764222973
   \<and> Finite 27021597764222972 \<noteq> Finite (9007199254740991 * 3)"
  by (simp add: orders_post_def storage_up_def db_jewel_def jewel_def new_id_def
      OrderItem_save_def Order_save_def item_total_def findById_def zero_jsnum_def
      js_round_jewel_total js_round_rounded_total Let_def res_defs)

text \<open>
  Claim C1, amended. \<open>POST /orders\<close> with \<open>N\<close> order items, each referencing an existing
  product, on a store with unique ids and with the storage layer accepting every call: the
  response is 200 with the created order; its \<open>totalPrice\<close> is what JavaScript number
  arithmetic gives when, starting from 0, it adds from left to right the products
  \<open>price * quantity\<close> of the items, each the product of the price the referenced product
  has in the store at that time and of the quantity of the item; exactly \<open>N\<close> order item
  documents are appended to the collection, one per item and in the order of the request,
  and the \<open>orderItems\<close> field of the order lists their ids in that order.
\<close>

theorem orders_post_total:
  assumes fresh: "ids_fresh d"
    and items: "or_orderItems req = Some items"
    and prods: "\<forall>x\<in>set items. map_of (products d) (ii_product x) \<noteq> None"
    and saves: "\<forall>k<length items. save_item env k = Succeeds"
    and finds: "\<forall>k<length items. find_item env k = Succeeds"
    and save: "save_order env = Succeeds"
  shows "orders_post now env req d res0 =
           (let n = nextId d;
                ids = [n..<n + length items];
                ord = (n + length items,
                       \<lparr>o_orderItems = ids,
                        o_totalPrice =
                          foldl (\<lambda>a b. a + b) 0
                            (map (\<lambda>x. p_price (the (map_of (products d) (ii_product x)))
                                        * ii_quantity x) items),
                        o_user = or_user req,
                        o_dateOrdered = now\<rparr>)
            in (\<lparr>statusCode = 200, sent = [(200, Doc ord)]\<rparr>,
                d\<lparr>nextId := Suc (n + length items),
                  orderItems := orderItems d @
                    zip ids (map (\<lambda>x. \<lparr>oi_quantity = ii_quantity x,
                                         oi_product = ii_product x\<rparr>) items),
                  orders := orders d @ [ord]\<rparr>))"
proof -
  let ?d1 = "d\<lparr>nextId := nextId d + length items,
               orderItems := orderItems d @
                 zip [nextId d..<nextId d + length items]
                   (map (\<lambda>x. \<lparr>oi_quantity = ii_quantity x, oi_product = ii_product x\<rparr>) items)\<rparr>"
  have "\<forall>p<length items. save_item env (0 + p) = Succeeds"
    using saves by simp
  from save_items_ok [OF this, of d]
  have phase1: "save_items (save_item env) 0 items d =
                  (map Resolved [nextId d..<nextId d + length items], ?d1)" .
  have phase2: "promise_all
                  (map (\<lambda>(k, orderItemId). item_total (find_item env k) ?d1 orderItemId)
                     (enumerate 0 [nextId d..<nextId d + length items])) =
                Resolved
                  (map (\<lambda>x. p_price (the (map_of (products d) (ii_product x))) * ii_quantity x)
                     items)"
    by (simp only: item_totals_ok [OF fresh finds prods refl] promise_all_map_Resolved)
  show ?thesis
    using items save
    by (simp add: orders_post_def phase1 promise_all_map_Resolved phase2
        new_id_def Order_save_def Let_def res_defs del: upt_Suc)
qed

theorem orders_post_total_witness:
  "orders_post 5 storage_up
     \<lparr>or_orderItems = Some [\<lparr>ii_quantity = Finite 2, ii_product = 1\<rparr>,
                             \<lparr>ii_quantity = Finite 3, ii_product = 1\<rparr>],
      or_user = Some 7\<rparr> db_shop res0 =
   (\<lparr>statusCode = 200,
     sent = [(200, Doc (10, \<lparr>o_orderItems = [8, 9], o_totalPrice = Finite 5000,
                              o_user = Some 7, o_dateOrdered = 5\<rparr>))]\<rparr>,
    \<lparr>users = [(7, ragil)], products = [(1, shirt)],
     orderItems = [(8, \<lparr>oi_quantity = Finite 2, oi_product = 1\<rparr>),
                   (9, \<lparr>oi_quantity = Finite 3, oi_product = 1\<rparr>)],
     orders = [(10, \<lparr>o_orderItems = [8, 9], o_totalPrice = Finite 5000, o_user = Some 7,
                     o_dateOrdered = 5\<rparr>)],
     nextId = 11\<rparr>)"
  using orders_post_total
    [where d = db_shop and env = storage_up and now = 5
       and items = "[\<lparr>ii_quantity = Finite 2, ii_product = 1\<rparr>,
                     \<lparr>ii_quantity = Finite 3, ii_product = 1\<rparr>]"
       and req = "\<lparr>or_orderItems = Some [\<lparr>ii_quantity = Finite 2, ii_product = 1\<rparr>,
                                          \<lparr>ii_quantity = Finite 3, ii_product = 1\<rparr>],
                   or_user = Some 7\<rparr>"]
  by (simp add: db_shop_def storage_up_def shirt_def ids_fresh_def Let_def zero_jsnum_def
      js_round_small)

text \<open>
  Claim C6. \<open>POST /orders\<close> on a store with unique ids: if any step of the sequence fails
  (the save of an order item is rejected, the fetch of an order item is rejected, an item
  references a product that does not exist, or the save of the order is rejected), the only
  response is the generic 500 envelope and no order is stored, while every order item whose
  save was accepted is still in the collection afterwards, after the documents that were
  there before: nothing removes the order items already created.
\<close>

theorem orders_post_failure_keeps_items:
  assumes fresh: "ids_fresh d"
    and items: "or_orderItems req = Some items"
    and failure: "(\<exists>k<length items. save_item env k = Fails)
                  \<or> (\<exists>k<length items. find_item env k = Fails)
                  \<or> (\<exists>x\<in>set items. map_of (products d) (ii_product x) = None)
                  \<or> save_order env = Fails"
    and run: "orders_post now env req d res0 = (res, d')"
  shows "sent res = [(500, Envelope False ''message'' ''Internal Server Error!s'')]
         \<and> orderItems d' = orderItems d @
              map (\<lambda>(k, x). (nextId d + k,
                               \<lparr>oi_quantity = ii_quantity x, oi_product = ii_product x\<rparr>))
                (filter (\<lambda>(k, x). save_item env k = Succeeds) (enumerate 0 items))
         \<and> orders d' = orders d"
proof -
  let ?c = "save_item env"
  let ?saves = "map (\<lambda>(k, x). case ?c k of Fails \<Rightarrow> Rejected | Succeeds \<Rightarrow> Resolved (nextId d + k))
                  (enumerate 0 items)"
  let ?new = "map (\<lambda>(k, x). (nextId d + k,
                               \<lparr>oi_quantity = ii_quantity x, oi_product = ii_product x\<rparr>))
                (filter (\<lambda>(k, x). ?c k = Succeeds) (enumerate 0 items))"
  let ?d1 = "d\<lparr>nextId := nextId d + length items, orderItems := orderItems d @ ?new\<rparr>"
  have phase1: "save_items ?c 0 items d = (?saves, ?d1)"
    by (rule save_items_general)
  have err: "sent (internal_error res0) = [(500, Envelope False ''message'' ''Internal Server Error!s'')]"
    by (simp add: internal_error_def res_defs)
  show ?thesis
  proof (cases "promise_all ?saves")
    case Rejected
    then have "res = internal_error res0" "d' = ?d1"
      using run items by (simp_all add: orders_post_def phase1)
    then show ?thesis using err by simp
  next
    case (Resolved ids)
    then have saves_eq: "?saves = map Resolved ids"
      by (rule promise_all_ResolvedD)
    have all_saved: "\<forall>k<length items. ?c k = Succeeds"
    proof (intro allI impI)
      fix k assume k: "k < length items"
      have "length ids = length items"
        using arg_cong [OF saves_eq, of length] by simp
      with k have "?saves ! k = Resolved (ids ! k)"
        by (simp add: saves_eq)
      then show "?c k = Succeeds"
        using k by (cases "?c k") (simp_all add: nth_enumerate_eq)
    qed
    then have "\<forall>p<length items. ?c (0 + p) = Succeeds" by simp
    from save_items_ok [OF this, of d] phase1
    have ids: "?saves = map Resolved [nextId d..<nextId d + length items]"
      and d1: "?d1 = d\<lparr>nextId := nextId d + length items,
                 orderItems := orderItems d @
                   zip [nextId d..<nextId d + length items]
                     (map (\<lambda>x. \<lparr>oi_quantity = ii_quantity x, oi_product = ii_product x\<rparr>) items)\<rparr>"
      by simp_all
    have ids_eq: "ids = [nextId d..<nextId d + length items]"
      using Resolved by (simp only: ids promise_all_map_Resolved promise.inject)
    let ?totals = "map (\<lambda>(k, orderItemId). item_total (find_item env k) ?d1 orderItemId)
                     (enumerate 0 ids)"
    show ?thesis
    proof (cases "promise_all ?totals")
      case Rejected
      then have "res = internal_error res0" "d' = ?d1"
        using run items \<open>promise_all ?saves = Resolved ids\<close>
        by (simp_all add: orders_post_def phase1)
      then show ?thesis using err by simp
    next
      case (Resolved totalPrices)
      then have totals_eq: "?totals = map Resolved totalPrices"
        by (rule promise_all_ResolvedD)
      have len: "length totalPrices = length items"
        using arg_cong [OF totals_eq, of length] by (simp add: ids_eq)
      have each: "find_item env k = Succeeds
                  \<and> map_of (products d) (ii_product (items ! k)) \<noteq> None"
        if k: "k < length items" for k
      proof -
        let ?docs = "map (\<lambda>x. \<lparr>oi_quantity = ii_quantity x, oi_product = ii_product x\<rparr>) items"
        have "?totals ! k = Resolved (totalPrices ! k)"
          using k len by (simp add: totals_eq)
        then have total: "item_total (find_item env k) ?d1 (nextId d + k) = Resolved (totalPrices ! k)"
          using k by (simp add: nth_enumerate_eq ids_eq)
        have look: "map_of (orderItems ?d1) (nextId d + k) = Some (?docs ! k)"
          using new_item_lookup [OF fresh, of k ?docs] k by (simp only: d1) simp
        show ?thesis
          using total look k
          by (cases "find_item env k")
            (auto simp: item_total_def findById_def split: option.splits)
      qed
      have all_found: "\<forall>k<length items. find_item env k = Succeeds"
        using each by blast
      have all_known: "\<forall>x\<in>set items. map_of (products d) (ii_product x) \<noteq> None"
        using each by (auto simp: in_set_conv_nth)
      have "save_order env = Fails"
        using failure all_saved all_found all_known by auto
      then have "res = internal_error res0"
        "d' = ?d1\<lparr>nextId := Suc (nextId ?d1)\<rparr>"
        using run items \<open>promise_all ?saves = Resolved ids\<close> Resolved
        by (simp_all add: orders_post_def phase1 new_id_def Order_save_def Let_def)
      then show ?thesis using err by simp
    qed
  qed
qed

theorem orders_post_failure_keeps_items_witness:
  "sent (fst (orders_post 5 storage_up
     \<lparr>or_orderItems = Some [\<lparr>ii_quantity = Finite 2, ii_product = 1\<rparr>,
                             \<lparr>ii_quantity = Finite 3, ii_product = 4\<rparr>],
      or_user = Some 7\<rparr> db_shop res0)) =
     [(500, Envelope False ''message'' ''Internal Server Error!s'')]
   \<and> orderItems (snd (orders_post 5 storage_up
     \<lparr>or_orderItems = Some [\<lparr>ii_quantity = Finite 2, ii_product = 1\<rparr>,
                             \<lparr>ii_quantity = Finite 3, ii_product = 4\<rparr>],
      or_user = Some 7\<rparr> db_shop res0)) =
     [(8, \<lparr>oi_quantity = Finite 2, oi_product = 1\<rparr>),
      (9, \<lparr>oi_quantity = Finite 3, oi_product = 4\<rparr>)]
   \<and> orders (snd (orders_post 5 storage_up
     \<lparr>or_orderItems = Some [\<lparr>ii_quantity = Finite 2, ii_product = 1\<rparr>,
                             \<lparr>ii_quantity = Finite 3, ii_product = 4\<rparr>],
      or_user = Some 7\<rparr> db_shop res0)) = []"
  using orders_post_failure_keeps_items
    [where d = db_shop and env = storage_up and now = 5
       and items = "[\<lparr>ii_quantity = Finite 2, ii_product = 1\<rparr>, \<lparr>ii_quantity = Finite 3, ii_product = 4\<rparr>]"
       and req = "\<lparr>or_orderItems = Some [\<lparr>ii_quantity = Finite 2, ii_product = 1\<rparr>,
                                          \<lparr>ii_quantity = Finite 3, ii_product = 4\<rparr>],
                   or_user = Some 7\<rparr>",
     OF _ _ _ prod.collapse [symmetric]]
  by (simp add: db_shop_def storage_up_def ids_fresh_def)

text \<open>Facts about the removals started by \<open>DELETE /orders/:id\<close>.\<close>

lemma remove_items_lookup:
  assumes "\<forall>p<length xs. c (k + p) = Succeeds"
  shows "map_of (orderItems (remove_items c k xs d)) j =
           (if j \<in> set xs then None else map_of (orderItems d) j)"
  using assms
proof (induction xs arbitrary: k d)
  case Nil
  then show ?case by simp
next
  case (Cons x xs)
  have head: "c k = Succeeds"
    using Cons.prems by (metis add.right_neutral length_greater_0_conv list.distinct(1))
  have tail: "\<forall>p<length xs. c (Suc k + p) = Succeeds"
    using Cons.prems by auto
  show ?case
    using Cons.IH [OF tail] head
    by (simp add: OrderItem_findByIdAndRemove_def map_of_remove_doc)
qed

text \<open>
  Claim C4. After \<open>DELETE /orders/:id\<close> on an existing order has completed, the order and
  every order item it referenced must be gone, so that fetching a former order item id
  resolves to not-found. The handler awaits the array of the promises rather than the
  promises: on the store \<open>db_ordered\<close>, where order 10 references the order items 8 and 9, it
  answers 200 when the order is removed and the two removals are only in flight, and a
  fetch of 8 or of 9 on the store at that moment still finds the order item.
\<close>

theorem orders_delete_answers_before_removals:
  "orders_delete \<lparr>remove_order = Succeeds, remove_item = (\<lambda>k. Succeeds)\<rparr> 10 db_ordered res0 =
     (\<lparr>statusCode = 200,
       sent = [(200, Envelope True ''message'' ''Order successfully deleted!'')]\<rparr>,
      db_ordered\<lparr>orders := []\<rparr>, [8, 9])
   \<and> findById Succeeds (orderItems (db_ordered\<lparr>orders := []\<rparr>)) 8 =
       Resolved (Some (8, \<lparr>oi_quantity = Finite 2, oi_product = 1\<rparr>))
   \<and> findById Succeeds (orderItems (db_ordered\<lparr>orders := []\<rparr>)) 9 =
       Resolved (Some (9, \<lparr>oi_quantity = Finite 3, oi_product = 1\<rparr>))"
  by (simp add: orders_delete_def Order_findByIdAndRemove_def remove_doc_def findById_def
      db_ordered_def res_defs)

text \<open>
  What does hold: on an existing order the handler answers with the 200 success envelope,
  the order is gone from the store at that moment, and the removals in flight are those of
  the ids the order referenced. If the storage layer accepts each of them, then once they
  have settled every such id resolves to not-found.
\<close>

lemma orders_delete_settled:
  assumes "map_of (orders d) i = Some ord"
    and "remove_order env = Succeeds"
    and "\<forall>k<length (o_orderItems ord). remove_item env k = Succeeds"
    and "orders_delete env i d res0 = (res, pending)"
  shows "sent res = [(200, Envelope True ''message'' ''Order successfully deleted!'')]
         \<and> snd pending = o_orderItems ord
         \<and> findById Succeeds (orders (fst pending)) i = Resolved None
         \<and> orderItems (fst pending) = orderItems d
         \<and> (\<forall>j\<in>set (o_orderItems ord).
               findById Succeeds (orderItems (settle_removals env pending)) j = Resolved None)"
proof -
  let ?d1 = "d\<lparr>orders := remove_doc i (orders d)\<rparr>"
  have pending: "pending = (?d1, o_orderItems ord)"
    and res: "res = json (Envelope True ''message'' ''Order successfully deleted!'') (status 200 res0)"
    using assms(1,2,4) by (auto simp: orders_delete_def Order_findByIdAndRemove_def Let_def)
  have accepted: "\<forall>p<length (o_orderItems ord). remove_item env (0 + p) = Succeeds"
    using assms(3) by simp
  have items: "\<And>j. j \<in> set (o_orderItems ord) \<Longrightarrow>
                 map_of (orderItems (settle_removals env pending)) j = None"
    by (simp add: pending settle_removals_def remove_items_lookup [OF accepted])
  show ?thesis
    using items res by (simp add: pending findById_def map_of_remove_doc res_defs)
qed

text \<open>
  A removal of an order item that the storage layer rejects goes unnoticed: the response
  has been the 200 success envelope, and the order item is still there once the removals
  have settled.
\<close>

lemma orders_delete_rejected_item_removal:
  "settle_removals
     \<lparr>remove_order = Succeeds, remove_item = (\<lambda>k. if k = 1 then Fails else Succeeds)\<rparr>
     (snd (orders_delete
        \<lparr>remove_order = Succeeds, remove_item = (\<lambda>k. if k = 1 then Fails else Succeeds)\<rparr>
        10 db_ordered res0)) =
   db_ordered\<lparr>orderItems := [(9, \<lparr>oi_quantity = Finite 3, oi_product = 1\<rparr>),
                               (11, \<lparr>oi_quantity = Finite 1, oi_product = 1\<rparr>)],
              orders := []\<rparr>"
  by (simp add: orders_delete_def Order_findByIdAndRemove_def OrderItem_findByIdAndRemove_def
      settle_removals_def remove_doc_def db_ordered_def res_defs)

end
